theory Spec2Isabelle
  imports Complex_Main "HOL-Library.Multiset"
begin

section \<open>Payment reconciliation of the Razorpay backend\<close>

text \<open>
  The development embeds the payment controller (\<^verbatim>\<open>payment.controller.js\<close>: the handlers
  \<^verbatim>\<open>verifyPayment\<close> and \<^verbatim>\<open>handleWebhook\<close> with their helpers \<^verbatim>\<open>updatePaymentStatus\<close> and
  \<^verbatim>\<open>updateRefundStatus\<close>), the signature checks of \<^verbatim>\<open>config/razorpay.js\<close> and
  \<^verbatim>\<open>utils/razorpayUtils.js\<close>, and of \<^verbatim>\<open>payment.model.js\<close> the schema with its validators and
  the \<^verbatim>\<open>refundedAmount\<close> virtual.

  Conventions of the embedding:
  \<^item> a JavaScript value that may be \<^verbatim>\<open>undefined\<close> is an \<open>option\<close>; \<^verbatim>\<open>===\<close> on two such
    values is equality of options;
  \<^item> a JavaScript \<^verbatim>\<open>Number\<close> is an IEEE double: a rational that a double represents, an
    infinity or NaN, with every operation rounded to the nearest double, ties to even;
  \<^item> a thrown exception is a value: a function that can throw after it has written
    returns the exception, if any, together with the store it leaves;
  \<^item> the document store is a pair of lists, in insertion order;
  \<^item> the keyed hash of Node's \<^verbatim>\<open>crypto\<close>, \<^verbatim>\<open>JSON.stringify\<close>, the two fetch calls of the
    gateway SDK and the id of a new sub-document are parameters, collected in the record
    \<open>env\<close> with the two secrets of \<^verbatim>\<open>process.env\<close>;
  \<^item> of a response, the HTTP status code and the \<^verbatim>\<open>success\<close> flag are kept.

  The controller works on the models of \<^verbatim>\<open>payment.model.js\<close> and \<^verbatim>\<open>order.model.js\<close>, whose
  schemas are strict. It names the fields of a document \<^verbatim>\<open>paymentId\<close>, \<^verbatim>\<open>orderId\<close> and
  \<^verbatim>\<open>refunds[].id\<close>, where the payment schema declares \<^verbatim>\<open>razorpayPaymentId\<close>,
  \<^verbatim>\<open>razorpayOrderId\<close> and \<^verbatim>\<open>refunds[].razorpayRefundId\<close>. What the schema layer does with
  that is part of the embedding:
  \<^item> an upsert whose filter names a path that the schema does not declare throws a
    \<^verbatim>\<open>StrictModeError\<close> before anything is written;
  \<^item> \<^verbatim>\<open>create\<close> and \<^verbatim>\<open>save\<close> drop the keys that the schema does not declare, run the
    validators of the schema on the whole document and throw a \<^verbatim>\<open>ValidationError\<close>
    without writing when one fails;
  \<^item> \<^verbatim>\<open>id\<close> on a sub-document of \<^verbatim>\<open>refunds\<close> is the virtual that returns its \<^verbatim>\<open>_id\<close> as a
    string;
  \<^item> a \<^verbatim>\<open>findOne\<close> or a \<^verbatim>\<open>findOneAndUpdate\<close> without upsert selects the first stored
    document whose field of the filter's name equals the filter's value (a document
    without the field when the value is \<^verbatim>\<open>undefined\<close>), and \<^verbatim>\<open>findOneAndUpdate\<close> runs no
    validator;
  \<^item> a document read from the store has a property for each path of its schema and no
    other: \<^verbatim>\<open>payment.orderId\<close> is \<^verbatim>\<open>undefined\<close>, whatever the stored document holds under
    that name.
  Failures of the store itself (a lost connection) are not modelled.
\<close>

subsection \<open>Values\<close>

datatype js_error = TypeError | Error string | StrictModeError | ValidationError

text \<open>JavaScript truthiness of a value that is a string or \<^verbatim>\<open>undefined\<close>.\<close>

definition truthy :: "string option \<Rightarrow> bool" where
  "truthy v = (case v of None \<Rightarrow> False | Some s \<Rightarrow> s \<noteq> [])"

record response =
  code :: nat
  success :: bool

definition respond :: "nat \<Rightarrow> bool \<Rightarrow> response" where
  "respond c ok = \<lparr>code = c, success = ok\<rparr>"

subsection \<open>Numbers\<close>

text \<open>A \<^verbatim>\<open>Number\<close>. \<open>Finite q\<close> stands for the double of value \<open>q\<close>; the two zeros are
  one value, which none of the operations below tells apart.\<close>

datatype js_number = Finite rat | PosInf | NegInf | NaN

text \<open>The number of binary digits of a natural number.\<close>

fun bitlength :: "nat \<Rightarrow> nat" where
  "bitlength n = (if n = 0 then 0 else Suc (bitlength (n div 2)))"

declare bitlength.simps [simp del]

text \<open>For \<open>q > 0\<close>, the integer \<open>k\<close> with \<open>2 ^ k \<le> q < 2 ^ (k + 1)\<close>.\<close>

definition ilog2 :: "rat \<Rightarrow> int" where
  "ilog2 q = (if q \<ge> 1 then int (bitlength (nat \<lfloor>q\<rfloor>)) - 1
              else - int (bitlength (nat (\<lceil>1 / q\<rceil> - 1))))"

definition pow2 :: "int \<Rightarrow> rat" where
  "pow2 k = (if k \<ge> 0 then 2 ^ nat k else 1 / 2 ^ nat (- k))"

definition round_half_even :: "rat \<Rightarrow> int" where
  "round_half_even m =
     (let f = \<lfloor>m\<rfloor>; d = m - of_int f
      in if d < 1 / 2 then f else if 1 / 2 < d then f + 1 else if even f then f else f + 1)"

text \<open>Rounding a rational to a double: 53 significant binary digits above the exponent
  \<open>-1022\<close>, multiples of \<open>2 ^ -1074\<close> below, an infinity from \<open>2 ^ 1024\<close> on.\<close>

definition js_round :: "rat \<Rightarrow> js_number" where
  "js_round q =
     (if q = 0 then Finite 0
      else let u = pow2 (max (ilog2 \<bar>q\<bar>) (- 1022) - 52);
               v = of_int (round_half_even (q / u)) * u
           in if pow2 1024 \<le> \<bar>v\<bar> then (if 0 < q then PosInf else NegInf) else Finite v)"

text \<open>\<^verbatim>\<open>a + b\<close>.\<close>

fun js_add :: "js_number \<Rightarrow> js_number \<Rightarrow> js_number" where
  "js_add (Finite a) (Finite b) = js_round (a + b)"
| "js_add NaN b = NaN"
| "js_add a NaN = NaN"
| "js_add PosInf NegInf = NaN"
| "js_add NegInf PosInf = NaN"
| "js_add PosInf b = PosInf"
| "js_add NegInf b = NegInf"
| "js_add a PosInf = PosInf"
| "js_add a NegInf = NegInf"

text \<open>\<^verbatim>\<open>a / 100\<close>.\<close>

fun js_div100 :: "js_number \<Rightarrow> js_number" where
  "js_div100 (Finite a) = js_round (a / 100)"
| "js_div100 a = a"

text \<open>\<^verbatim>\<open>a >= b\<close>.\<close>

fun js_ge :: "js_number \<Rightarrow> js_number \<Rightarrow> bool" where
  "js_ge (Finite a) (Finite b) = (b \<le> a)"
| "js_ge NaN b = False"
| "js_ge a NaN = False"
| "js_ge PosInf b = True"
| "js_ge a NegInf = True"
| "js_ge NegInf b = False"
| "js_ge a PosInf = False"

text \<open>\<^verbatim>\<open>v || 0\<close> for a value that is a number or \<^verbatim>\<open>undefined\<close>: zero and NaN are falsy.\<close>

definition or_zero :: "js_number option \<Rightarrow> js_number" where
  "or_zero v = (case v of None \<Rightarrow> Finite 0 | Some NaN \<Rightarrow> Finite 0 | Some a \<Rightarrow> a)"

subsection \<open>Documents\<close>

text \<open>A refund entity as the gateway reports it: the value of \<^verbatim>\<open>refunds.fetch\<close>. Amounts
  of the gateway are in paise.\<close>

record refund_entity =
  ge_id :: "string option"
  ge_amount :: "js_number option"
  ge_status :: "string option"

text \<open>A sub-document of \<^verbatim>\<open>payment.refunds\<close>: its \<^verbatim>\<open>_id\<close> as the string that the \<^verbatim>\<open>id\<close>
  virtual returns, and the three paths of the schema.\<close>

record refund =
  rf_id :: string
  razorpayRefundId :: "string option"
  rf_amount :: "js_number option"
  rf_status :: "string option"

text \<open>The payment entity returned by \<^verbatim>\<open>razorpayInstance.payments.fetch\<close>.\<close>

record payment_details =
  pd_amount :: js_number
  pd_currency :: string
  pd_status :: string
  pd_method :: string
  pd_email :: string
  pd_contact :: string

text \<open>A stored Payment document: the stored fields \<^verbatim>\<open>paymentId\<close> and \<^verbatim>\<open>orderId\<close> that the
  controller names (\<open>None\<close> when the document has no such field), and the paths of the
  schema that carry a validator or that the controller uses. The other paths of the schema (\<^verbatim>\<open>card\<close>, \<^verbatim>\<open>upi\<close>, \<^verbatim>\<open>wallet\<close>,
  \<^verbatim>\<open>bank\<close>, \<^verbatim>\<open>emi\<close>, \<^verbatim>\<open>recurring\<close>, \<^verbatim>\<open>error\<close>, \<^verbatim>\<open>notes\<close>, \<^verbatim>\<open>receipt\<close>, \<^verbatim>\<open>receiptSent\<close>) have no
  validator that can fail and are left out.\<close>

record payment_doc =
  paymentId :: "string option"
  orderId :: "string option"
  user :: "string option"
  order :: "string option"
  amount :: "js_number option"
  currency :: "string option"
  status :: string
  p_method :: "string option"
  razorpayOrderId :: "string option"
  razorpayPaymentId :: "string option"
  razorpaySignature :: "string option"
  refunds :: "refund list"

record order_doc =
  o_orderId :: "string option"
  o_status :: string
  o_receipt :: "string option"

record db =
  payments :: "payment_doc list"
  orders :: "order_doc list"

subsection \<open>Requests\<close>

text \<open>The body of a webhook delivery. \<open>payload_payment_entity\<close> is
  \<^verbatim>\<open>event.payload.payment.entity\<close> and is \<open>None\<close> when that path cannot be read
  (reading a property of it then throws a TypeError); likewise for the refund.\<close>

record pay_entity =
  pe_id :: "string option"
  pe_order_id :: "string option"

record ref_entity =
  re_id :: "string option"
  re_payment_id :: "string option"

record webhook_body =
  event :: "string option"
  payload_payment_entity :: "pay_entity option"
  payload_refund_entity :: "ref_entity option"

record webhook_req =
  x_razorpay_signature :: "string option"
  body :: webhook_body

record verify_req =
  razorpay_order_id :: "string option"
  razorpay_payment_id :: "string option"
  razorpay_signature :: "string option"
  user_id :: "string option"

subsection \<open>Environment\<close>

record env =
  RAZORPAY_KEY_SECRET :: "string option"
  RAZORPAY_WEBHOOK_SECRET :: "string option"
  hmac_sha256_hex :: "string \<Rightarrow> string \<Rightarrow> string"
  JSON_stringify :: "webhook_body \<Rightarrow> string"
  payments_fetch :: "string \<Rightarrow> js_error + payment_details"
  refunds_fetch :: "string option \<Rightarrow> js_error + refund_entity"
  new_ObjectId :: string

text \<open>\<^verbatim>\<open>crypto.createHmac('sha256', key).update(msg).digest('hex')\<close>: Node throws a
  TypeError when the key is \<^verbatim>\<open>undefined\<close>.\<close>

definition createHmac :: "env \<Rightarrow> string option \<Rightarrow> string \<Rightarrow> js_error + string" where
  "createHmac e key msg =
     (case key of None \<Rightarrow> Inl TypeError | Some k \<Rightarrow> Inr (hmac_sha256_hex e k msg))"

subsection \<open>Signature checks\<close>

text \<open>\<^verbatim>\<open>config/razorpay.js\<close>, \<^verbatim>\<open>validatePaymentVerification\<close>.\<close>

definition validatePaymentVerification ::
    "env \<Rightarrow> string \<Rightarrow> string \<Rightarrow> string \<Rightarrow> js_error + bool" where
  "validatePaymentVerification e oid pid sig =
     (case createHmac e (RAZORPAY_KEY_SECRET e) (oid @ ''|'' @ pid) of
        Inl err \<Rightarrow> Inl err
      | Inr generatedSignature \<Rightarrow> Inr (generatedSignature = sig))"

text \<open>\<^verbatim>\<open>utils/razorpayUtils.js\<close>, \<^verbatim>\<open>verifyPaymentSignature\<close>: the same check inside a
  \<^verbatim>\<open>try\<close> whose \<^verbatim>\<open>catch\<close> returns false.\<close>

definition verifyPaymentSignature :: "env \<Rightarrow> string \<Rightarrow> string \<Rightarrow> string \<Rightarrow> bool" where
  "verifyPaymentSignature e oid pid sig =
     (case createHmac e (RAZORPAY_KEY_SECRET e) (oid @ ''|'' @ pid) of
        Inl err \<Rightarrow> False
      | Inr generatedSignature \<Rightarrow> generatedSignature = sig)"

subsection \<open>The payment model\<close>

text \<open>The paths that \<^verbatim>\<open>paymentSchema\<close> declares, with the ones every schema has.\<close>

definition paymentSchema_paths :: "string list" where
  "paymentSchema_paths =
     [''user'', ''order'', ''amount'', ''currency'', ''status'', ''method'',
      ''razorpayOrderId'', ''razorpayPaymentId'', ''razorpaySignature'', ''card'', ''upi'',
      ''wallet'', ''bank'', ''emi'', ''recurring'', ''error'', ''notes'', ''refunds'',
      ''receipt'', ''receiptSent'', ''_id'', ''__v'', ''createdAt'', ''updatedAt'']"

text \<open>What a strict schema keeps of the value given under a key.\<close>

definition strict :: "string \<Rightarrow> 'a option \<Rightarrow> 'a option" where
  "strict key v = (if key \<in> set paymentSchema_paths then v else None)"

text \<open>The cast of the filter of an upsert, for a filter of one key.\<close>

definition cast_upsert_filter :: "string \<Rightarrow> js_error option" where
  "cast_upsert_filter key = (if key \<in> set paymentSchema_paths then None else Some StrictModeError)"

text \<open>\<^verbatim>\<open>required\<close> on a string path: present and not empty.\<close>

definition required_string :: "string option \<Rightarrow> bool" where
  "required_string v = (case v of None \<Rightarrow> False | Some s \<Rightarrow> s \<noteq> [])"

text \<open>\<^verbatim>\<open>enum\<close>: an absent value passes.\<close>

definition enum :: "string list \<Rightarrow> string option \<Rightarrow> bool" where
  "enum values v = (case v of None \<Rightarrow> True | Some s \<Rightarrow> s \<in> set values)"

text \<open>The validators of a sub-document of \<^verbatim>\<open>refunds\<close> (lines 85 to 101 of the model).\<close>

definition valid_refund :: "refund \<Rightarrow> bool" where
  "valid_refund r =
     (required_string (razorpayRefundId r)
      \<and> rf_amount r \<noteq> None
      \<and> enum [''pending'', ''processed'', ''failed''] (rf_status r))"

text \<open>The validators of \<^verbatim>\<open>paymentSchema\<close>.\<close>

definition valid_payment :: "payment_doc \<Rightarrow> bool" where
  "valid_payment p =
     (user p \<noteq> None
      \<and> order p \<noteq> None
      \<and> (case amount p of None \<Rightarrow> False | Some a \<Rightarrow> js_ge a (Finite 0))
      \<and> enum [''INR''] (currency p)
      \<and> enum [''created'', ''authorized'', ''captured'', ''failed'', ''refunded''] (Some (status p))
      \<and> enum [''card'', ''netbanking'', ''wallet'', ''upi'', ''emi'', ''other''] (p_method p)
      \<and> required_string (razorpayOrderId p)
      \<and> (if status p = ''captured'' then required_string (razorpaySignature p) else True)
      \<and> list_all valid_refund (refunds p))"

text \<open>The virtual \<^verbatim>\<open>refundedAmount\<close>: the amounts of the refunds whose status is
  \<^verbatim>\<open>processed\<close>, added up from 0; an absent amount makes the sum NaN.\<close>

definition refundedAmount :: "payment_doc \<Rightarrow> js_number" where
  "refundedAmount p =
     foldl (\<lambda>total r. case rf_amount r of None \<Rightarrow> NaN | Some a \<Rightarrow> js_add total a)
       (Finite 0) (filter (\<lambda>r. rf_status r = Some ''processed'') (refunds p))"

subsection \<open>Store operations\<close>

text \<open>\<^verbatim>\<open>Array.prototype.findIndex\<close>, with \<open>None\<close> for \<^verbatim>\<open>-1\<close>; also the position of the
  document a \<^verbatim>\<open>findOne\<close> returns, which is where \<^verbatim>\<open>save\<close> writes it back.\<close>

fun findIndex :: "('a \<Rightarrow> bool) \<Rightarrow> 'a list \<Rightarrow> nat option" where
  "findIndex P [] = None"
| "findIndex P (x # xs) = (if P x then Some 0 else map_option Suc (findIndex P xs))"

text \<open>\<^verbatim>\<open>Payment.findOneAndUpdate({paymentId}, {status}, {new: true, upsert: true})\<close>. The
  filter is cast first; \<^verbatim>\<open>paymentId\<close> is no path of the schema, so the cast throws. Past
  the cast, the first match would get the status, and without a match a document of the
  filter, the update and the defaults of the schema would be inserted.\<close>

definition Payment_findOneAndUpdate ::
    "string option \<Rightarrow> string \<Rightarrow> payment_doc list \<Rightarrow> js_error option \<times> payment_doc list" where
  "Payment_findOneAndUpdate pid st ps =
     (case cast_upsert_filter ''paymentId'' of
        Some err \<Rightarrow> (Some err, ps)
      | None \<Rightarrow>
          (case findIndex (\<lambda>p. paymentId p = pid) ps of
             Some i \<Rightarrow> (None, ps[i := (ps ! i)\<lparr>status := st\<rparr>])
           | None \<Rightarrow>
               (None,
                ps @ [\<lparr>paymentId = pid, orderId = None, user = None, order = None,
                        amount = None, currency = Some ''INR'', status = st, p_method = None,
                        razorpayOrderId = None, razorpayPaymentId = None,
                        razorpaySignature = None, refunds = []\<rparr>])))"

text \<open>\<^verbatim>\<open>Payment.create(doc)\<close>, on the document as the strict schema has cast it.\<close>

definition Payment_create :: "payment_doc \<Rightarrow> payment_doc list \<Rightarrow> js_error option \<times> payment_doc list" where
  "Payment_create doc ps = (if valid_payment doc then (None, ps @ [doc]) else (Some ValidationError, ps))"

text \<open>\<^verbatim>\<open>payment.save()\<close> for the document read from position \<open>k\<close>.\<close>

definition save :: "nat \<Rightarrow> payment_doc \<Rightarrow> payment_doc list \<Rightarrow> js_error option \<times> payment_doc list" where
  "save k doc ps = (if valid_payment doc then (None, ps[k := doc]) else (Some ValidationError, ps))"

text \<open>\<^verbatim>\<open>Order.findOneAndUpdate({orderId}, {status}, {new: true})\<close>: the updated
  collection and the document returned (\<open>None\<close> for \<^verbatim>\<open>null\<close>).\<close>

definition Order_findOneAndUpdate ::
    "string option \<Rightarrow> string \<Rightarrow> order_doc list \<Rightarrow> order_doc list \<times> order_doc option" where
  "Order_findOneAndUpdate oid st os =
     (case findIndex (\<lambda>ord. o_orderId ord = oid) os of
        None \<Rightarrow> (os, None)
      | Some i \<Rightarrow> (os[i := (os ! i)\<lparr>o_status := st\<rparr>], Some ((os ! i)\<lparr>o_status := st\<rparr>)))"

subsection \<open>The controller\<close>

text \<open>\<^verbatim>\<open>updatePaymentStatus(paymentId, orderId, status)\<close>: the exception it rethrows, if
  any, and the store it leaves.\<close>

definition updatePaymentStatus ::
    "string option \<Rightarrow> string option \<Rightarrow> string \<Rightarrow> db \<Rightarrow> js_error option \<times> db" where
  "updatePaymentStatus pid oid st d =
     (case Payment_findOneAndUpdate pid st (payments d) of
        (Some err, ps) \<Rightarrow> (Some err, d\<lparr>payments := ps\<rparr>)
      | (None, ps) \<Rightarrow>
          (let d1 = d\<lparr>payments := ps\<rparr>
           in if truthy oid
              then (None,
                    d1\<lparr>orders :=
                         fst (Order_findOneAndUpdate oid
                                (if st = ''captured'' then ''paid'' else st) (orders d1))\<rparr>)
              else (None, d1)))"

text \<open>\<^verbatim>\<open>payment.refunds.push(refundDetails)\<close>: the entity cast to a sub-document. The keys
  \<^verbatim>\<open>amount\<close> and \<^verbatim>\<open>status\<close> are paths of the sub-document, \<^verbatim>\<open>status\<close> has the default
  \<^verbatim>\<open>pending\<close>, the other keys of the entity are dropped, and the \<^verbatim>\<open>_id\<close> is new.\<close>

definition pushed :: "env \<Rightarrow> refund_entity \<Rightarrow> refund" where
  "pushed e refundDetails =
     \<lparr>rf_id = new_ObjectId e, razorpayRefundId = None, rf_amount = ge_amount refundDetails,
      rf_status = (case ge_status refundDetails of None \<Rightarrow> Some ''pending'' | Some s \<Rightarrow> Some s)\<rparr>"

text \<open>The \<^verbatim>\<open>reduce\<close> of \<^verbatim>\<open>updateRefundStatus\<close>: every refund of the list counts,
  \<^verbatim>\<open>(refund.amount || 0) / 100\<close> is added to the sum, which starts at 0.\<close>

definition totalRefunded :: "refund list \<Rightarrow> js_number" where
  "totalRefunded rs = foldl (\<lambda>sum r. js_add sum (js_div100 (or_zero (rf_amount r)))) (Finite 0) rs"

text \<open>\<^verbatim>\<open>totalRefunded >= payment.amount\<close>: false when the amount is \<^verbatim>\<open>undefined\<close>.\<close>

definition total_ge :: "js_number \<Rightarrow> js_number option \<Rightarrow> bool" where
  "total_ge t a = (case a of None \<Rightarrow> False | Some x \<Rightarrow> js_ge t x)"

text \<open>\<^verbatim>\<open>updateRefundStatus(refundId, paymentId, status)\<close>: the exception it rethrows, if
  any, and the store it leaves. For \<^verbatim>\<open>processed\<close> the Order update is issued before
  \<^verbatim>\<open>payment.save()\<close> validates the document; its filter is what \<^verbatim>\<open>payment.orderId\<close> reads
  on the document of the strict schema.\<close>

definition updateRefundStatus ::
    "env \<Rightarrow> string option \<Rightarrow> string option \<Rightarrow> string \<Rightarrow> db \<Rightarrow> js_error option \<times> db" where
  "updateRefundStatus e rid pid st d =
     (case findIndex (\<lambda>p. paymentId p = pid) (payments d) of
        None \<Rightarrow> (Some (Error ''Payment not found''), d)
      | Some k \<Rightarrow>
          (let payment = payments d ! k;
               located =
                 (case findIndex (\<lambda>refund. Some (rf_id refund) = rid) (refunds payment) of
                    Some i \<Rightarrow>
                      Inr (payment\<lparr>refunds :=
                             (refunds payment)[i := (refunds payment ! i)\<lparr>rf_status := Some st\<rparr>]\<rparr>)
                  | None \<Rightarrow>
                      (case refunds_fetch e rid of
                         Inl err \<Rightarrow> Inl err
                       | Inr refundDetails \<Rightarrow>
                           Inr (payment\<lparr>refunds := refunds payment @ [pushed e refundDetails]\<rparr>)))
           in case located of
                Inl err \<Rightarrow> (Some err, d)
              | Inr p1 \<Rightarrow>
                  if st = ''processed''
                  then (let p2 = p1\<lparr>status :=
                                  (if total_ge (totalRefunded (refunds p1)) (amount p1)
                                   then ''refunded'' else ''partially_refunded'')\<rparr>;
                            d1 = d\<lparr>orders := fst (Order_findOneAndUpdate
                                                     (strict ''orderId'' (orderId p2)) (status p2)
                                                     (orders d))\<rparr>
                        in case save k p2 (payments d1) of
                             (err, ps) \<Rightarrow> (err, d1\<lparr>payments := ps\<rparr>))
                  else (case save k p1 (payments d) of
                          (err, ps) \<Rightarrow> (err, d\<lparr>payments := ps\<rparr>))))"

text \<open>The \<^verbatim>\<open>switch (event.event)\<close> of \<^verbatim>\<open>handleWebhook\<close>.\<close>

definition handleEvent :: "env \<Rightarrow> webhook_body \<Rightarrow> db \<Rightarrow> js_error option \<times> db" where
  "handleEvent e ev d =
     (if event ev = Some ''payment.authorized'' then
        (case payload_payment_entity ev of None \<Rightarrow> (Some TypeError, d) | Some ent \<Rightarrow> (None, d))
      else if event ev = Some ''payment.captured'' then
        (case payload_payment_entity ev of
           None \<Rightarrow> (Some TypeError, d)
         | Some ent \<Rightarrow> updatePaymentStatus (pe_id ent) (pe_order_id ent) ''captured'' d)
      else if event ev = Some ''payment.failed'' then
        (case payload_payment_entity ev of
           None \<Rightarrow> (Some TypeError, d)
         | Some ent \<Rightarrow> updatePaymentStatus (pe_id ent) (pe_order_id ent) ''failed'' d)
      else if event ev = Some ''refund.created'' then
        (case payload_refund_entity ev of
           None \<Rightarrow> (Some TypeError, d)
         | Some ent \<Rightarrow> updateRefundStatus e (re_id ent) (re_payment_id ent) ''created'' d)
      else if event ev = Some ''refund.processed'' then
        (case payload_refund_entity ev of
           None \<Rightarrow> (Some TypeError, d)
         | Some ent \<Rightarrow> updateRefundStatus e (re_id ent) (re_payment_id ent) ''processed'' d)
      else (None, d))"

text \<open>\<^verbatim>\<open>handleWebhook(req, res)\<close>: the response and the store it leaves.\<close>

definition handleWebhook :: "env \<Rightarrow> webhook_req \<Rightarrow> db \<Rightarrow> response \<times> db" where
  "handleWebhook e req d =
     (if \<not> truthy (x_razorpay_signature req) then (respond 400 False, d)
      else case createHmac e (RAZORPAY_WEBHOOK_SECRET e) (JSON_stringify e (body req)) of
             Inl err \<Rightarrow> (respond 500 False, d)
           | Inr expectedSignature \<Rightarrow>
               if Some expectedSignature \<noteq> x_razorpay_signature req
               then (respond 400 False, d)
               else (case handleEvent e (body req) d of
                       (Some err, d') \<Rightarrow> (respond 500 False, d')
                     | (None, d') \<Rightarrow> (respond 200 True, d')))"

text \<open>\<^verbatim>\<open>verifyPayment(req, res)\<close>. The Order is updated before the Payment document is
  built and created. Of the keys given to \<^verbatim>\<open>Payment.create\<close> the strict schema keeps
  \<^verbatim>\<open>amount\<close>, \<^verbatim>\<open>currency\<close>, \<^verbatim>\<open>status\<close> and \<^verbatim>\<open>method\<close>.\<close>

definition verifyPayment :: "env \<Rightarrow> verify_req \<Rightarrow> db \<Rightarrow> response \<times> db" where
  "verifyPayment e req d =
     (case (razorpay_order_id req, razorpay_payment_id req, razorpay_signature req) of
        (Some oid, Some pid, Some sig) \<Rightarrow>
          (if oid = [] \<or> pid = [] \<or> sig = [] then (respond 400 False, d)
           else case validatePaymentVerification e oid pid sig of
                  Inl err \<Rightarrow> (respond 500 False, d)
                | Inr isValid \<Rightarrow>
                    if \<not> isValid then (respond 400 False, d)
                    else (case payments_fetch e pid of
                            Inl err \<Rightarrow> (respond 500 False, d)
                          | Inr pdetails \<Rightarrow>
                              (let (os, ord) = Order_findOneAndUpdate (Some oid) ''paid'' (orders d);
                                   d1 = d\<lparr>orders := os\<rparr>
                               in case ord of
                                    None \<Rightarrow> (respond 404 False, d1)
                                  | Some found \<Rightarrow>
                                      (case user_id req of
                                         None \<Rightarrow> (respond 500 False, d1)
                                       | Some uid \<Rightarrow>
                                           (case Payment_create
                                                   \<lparr>paymentId = strict ''paymentId'' (Some pid),
                                                    orderId = strict ''orderId'' (Some oid),
                                                    user = strict ''userId'' (Some uid),
                                                    order = None,
                                                    amount = strict ''amount''
                                                               (Some (js_div100 (pd_amount pdetails))),
                                                    currency = strict ''currency''
                                                                 (Some (pd_currency pdetails)),
                                                    status = pd_status pdetails,
                                                    p_method = strict ''method''
                                                                 (Some (pd_method pdetails)),
                                                    razorpayOrderId = None,
                                                    razorpayPaymentId = None,
                                                    razorpaySignature = strict ''signature'' (Some sig),
                                                    refunds = []\<rparr>
                                                   (payments d1) of
                                              (Some err, ps) \<Rightarrow>
                                                (respond 500 False, d1\<lparr>payments := ps\<rparr>)
                                            | (None, ps) \<Rightarrow>
                                                (respond 200 True, d1\<lparr>payments := ps\<rparr>))))))
      | _ \<Rightarrow> (respond 400 False, d))"

subsection \<open>Runs\<close>

text \<open>The two entry points as inputs of the reconciliation, and a sequence of inputs
  handled one after the other, each on the store the previous one left.\<close>

datatype reconciliation_input = VerifyCall verify_req | WebhookDelivery webhook_req

fun apply_input :: "env \<Rightarrow> reconciliation_input \<Rightarrow> db \<Rightarrow> db" where
  "apply_input e (VerifyCall v) d = snd (verifyPayment e v d)"
| "apply_input e (WebhookDelivery r) d = snd (handleWebhook e r d)"

fun apply_inputs :: "env \<Rightarrow> reconciliation_input list \<Rightarrow> db \<Rightarrow> db" where
  "apply_inputs e [] d = d"
| "apply_inputs e (i # inputs) d = apply_inputs e inputs (apply_input e i d)"

subsection \<open>Sample data\<close>

text \<open>A concrete environment and concrete records, on which the theorems below are
  instantiated. The keyed hash of the sample environment is a stand-in (key and message
  joined); the theorems themselves hold for every hash function.\<close>

definition sample_payment_details :: payment_details where
  "sample_payment_details =
     \<lparr>pd_amount = Finite 50000, pd_currency = ''INR'', pd_status = ''captured'',
      pd_method = ''card'', pd_email = ''a@b.c'', pd_contact = ''9''\<rparr>"

definition sample_env :: env where
  "sample_env =
     \<lparr>RAZORPAY_KEY_SECRET = Some ''ks'',
      RAZORPAY_WEBHOOK_SECRET = Some ''ws'',
      hmac_sha256_hex = (\<lambda>k m. k @ ''#'' @ m),
      JSON_stringify = (\<lambda>b. case event b of None \<Rightarrow> ''{}'' | Some s \<Rightarrow> s),
      payments_fetch = (\<lambda>pid. if pid = ''pay_XYZ'' then Inr sample_payment_details
                               else Inl (Error ''not found'')),
      refunds_fetch = (\<lambda>rid. if rid = Some ''rfnd_1''
                              then Inr \<lparr>ge_id = Some ''rfnd_1'', ge_amount = Some (Finite 20000),
                                        ge_status = Some ''processed''\<rparr>
                              else if rid = Some ''rfnd_A''
                              then Inr \<lparr>ge_id = Some ''rfnd_A'', ge_amount = Some (Finite 10000),
                                        ge_status = Some ''processed''\<rparr>
                              else Inl (Error ''not found'')),
      new_ObjectId = ''65f0c0ffee0000000000000f''\<rparr>"

definition sample_order :: order_doc where
  "sample_order = \<lparr>o_orderId = Some ''order_ABC'', o_status = ''created'', o_receipt = Some ''r1''\<rparr>"

text \<open>A Payment document that passes the validators of the schema.\<close>

definition sample_payment :: payment_doc where
  "sample_payment =
     \<lparr>paymentId = Some ''pay_XYZ'', orderId = Some ''order_ABC'', user = Some ''65f0c0ffee00000000000001'',
      order = Some ''65f0c0ffee00000000000002'', amount = Some (Finite 100),
      currency = Some ''INR'', status = ''captured'', p_method = Some ''card'',
      razorpayOrderId = Some ''order_ABC'', razorpayPaymentId = Some ''pay_XYZ'',
      razorpaySignature = Some ''s'', refunds = []\<rparr>"

text \<open>Refund sub-documents: \<open>sample_refund oid rid a st\<close> has the \<^verbatim>\<open>_id\<close> \<open>oid\<close>, the
  gateway refund id \<open>rid\<close>, the amount \<open>a\<close> in paise and the status \<open>st\<close>.\<close>

definition sample_refund :: "string \<Rightarrow> string \<Rightarrow> rat \<Rightarrow> string \<Rightarrow> refund" where
  "sample_refund oid rid a st =
     \<lparr>rf_id = oid, razorpayRefundId = Some rid, rf_amount = Some (Finite a), rf_status = Some st\<rparr>"

definition sample_db :: db where
  "sample_db = \<lparr>payments = [sample_payment], orders = [sample_order]\<rparr>"

definition fresh_db :: db where
  "fresh_db = \<lparr>payments = [], orders = [sample_order]\<rparr>"

text \<open>The captured payment of 100 with one refund of 10000 paise that is still pending.\<close>

definition pending_refund_db :: db where
  "pending_refund_db =
     \<lparr>payments =
        [sample_payment\<lparr>refunds :=
           [sample_refund ''65f0c0ffee0000000000000a'' ''rfnd_A'' 10000 ''pending'']\<rparr>],
      orders = [sample_order\<lparr>o_status := ''paid''\<rparr>]\<rparr>"

text \<open>The same payment with two pending refunds, of 50 paise and of 9950 paise.\<close>

definition two_refunds_db :: db where
  "two_refunds_db =
     \<lparr>payments =
        [sample_payment\<lparr>refunds :=
           [sample_refund ''65f0c0ffee0000000000000a'' ''rfnd_A'' 50 ''pending'',
            sample_refund ''65f0c0ffee0000000000000b'' ''rfnd_B'' 9950 ''pending'']\<rparr>],
      orders = [sample_order\<lparr>o_status := ''paid''\<rparr>]\<rparr>"

text \<open>The same payment with two refunds of 6000 paise, one processed and one pending.\<close>

definition overdrawn_db :: db where
  "overdrawn_db =
     \<lparr>payments =
        [sample_payment\<lparr>refunds :=
           [sample_refund ''65f0c0ffee0000000000000a'' ''rfnd_A'' 6000 ''processed'',
            sample_refund ''65f0c0ffee0000000000000b'' ''rfnd_B'' 6000 ''pending'']\<rparr>],
      orders = [sample_order\<lparr>o_status := ''paid''\<rparr>]\<rparr>"

text \<open>A failed payment of 100 with a pending refund of 10000 paise.\<close>

definition failed_db :: db where
  "failed_db =
     \<lparr>payments =
        [sample_payment\<lparr>status := ''failed'',
           refunds := [sample_refund ''65f0c0ffee0000000000000a'' ''rfnd_A'' 10000 ''pending'']\<rparr>],
      orders = [sample_order]\<rparr>"

text \<open>A refunded payment of 100 with its processed refund of 10000 paise.\<close>

definition refunded_db :: db where
  "refunded_db =
     \<lparr>payments =
        [sample_payment\<lparr>status := ''refunded'',
           refunds := [sample_refund ''65f0c0ffee0000000000000a'' ''rfnd_A'' 10000 ''processed'']\<rparr>],
      orders = [sample_order\<lparr>o_status := ''paid''\<rparr>]\<rparr>"

text \<open>A webhook delivery whose signature header is the one the sample environment computes.\<close>

definition payment_event :: "string \<Rightarrow> string \<Rightarrow> string \<Rightarrow> webhook_req" where
  "payment_event name pid oid =
     \<lparr>x_razorpay_signature = Some (''ws#'' @ name),
      body = \<lparr>event = Some name,
              payload_payment_entity = Some \<lparr>pe_id = Some pid, pe_order_id = Some oid\<rparr>,
              payload_refund_entity = None\<rparr>\<rparr>"

definition refund_event :: "string \<Rightarrow> string \<Rightarrow> string \<Rightarrow> webhook_req" where
  "refund_event name rid pid =
     \<lparr>x_razorpay_signature = Some (''ws#'' @ name),
      body = \<lparr>event = Some name,
              payload_payment_entity = None,
              payload_refund_entity = Some \<lparr>re_id = Some rid, re_payment_id = Some pid\<rparr>\<rparr>\<rparr>"

definition sample_verify_req :: verify_req where
  "sample_verify_req =
     \<lparr>razorpay_order_id = Some ''order_ABC'', razorpay_payment_id = Some ''pay_XYZ'',
      razorpay_signature = Some ''ks#order_ABC|pay_XYZ'', user_id = Some ''u1''\<rparr>"

section \<open>Properties\<close>

subsection \<open>Lists and the two collections\<close>

lemma findIndex_Some: "findIndex P xs = Some i \<Longrightarrow> i < length xs \<and> P (xs ! i)"
  by (induction xs arbitrary: i) (auto split: if_splits)


lemma findIndex_append:
  "findIndex P (xs @ [y]) =
     (case findIndex P xs of Some i \<Rightarrow> Some i
      | None \<Rightarrow> if P y then Some (length xs) else None)"
  by (induction xs) (auto split: option.splits)

lemma findIndex_map:
  "findIndex (\<lambda>p. f p = v) ps = findIndex (\<lambda>x. x = v) (map f ps)"
  by (induction ps) auto


lemma strict_orderId [simp]: "strict ''orderId'' v = None"
  by (simp add: strict_def paymentSchema_paths_def)

lemma updatePaymentStatus_throws:
  "updatePaymentStatus pid oid st d = (Some StrictModeError, d)"
  by (simp add: updatePaymentStatus_def Payment_findOneAndUpdate_def cast_upsert_filter_def
      paymentSchema_paths_def)

lemma totalRefunded_amounts:
  assumes "map rf_amount rs = map rf_amount rs'"
  shows "totalRefunded rs = totalRefunded rs'"
proof -
  have eq: "foldl (\<lambda>sum r. js_add sum (js_div100 (or_zero (rf_amount r)))) a rs
          = foldl (\<lambda>sum x. js_add sum (js_div100 (or_zero x))) a (map rf_amount rs)" for a rs
    by (induction rs arbitrary: a) simp_all
  show ?thesis
    unfolding totalRefunded_def eq assms by (rule refl)
qed

lemma map_amount_update:
  "map rf_amount (rs[i := (rs ! i)\<lparr>rf_status := s\<rparr>]) = map rf_amount rs"
  by (induction rs arbitrary: i) (auto simp: nth_Cons split: nat.splits)

lemma totalRefunded_update:
  "totalRefunded (rs[i := (rs ! i)\<lparr>rf_status := s\<rparr>]) = totalRefunded rs"
  by (rule totalRefunded_amounts [OF map_amount_update])

lemma pushed_invalid: "\<not> valid_payment (p\<lparr>refunds := rs @ [pushed e x]\<rparr>)"
  "\<not> valid_payment (p\<lparr>refunds := rs @ [pushed e x], status := s\<rparr>)"
  by (simp_all add: valid_payment_def valid_refund_def pushed_def required_string_def)

lemma valid_payment_status:
  "valid_payment p \<Longrightarrow>
     status p \<in> set [''created'', ''authorized'', ''captured'', ''failed'', ''refunded'']"
  by (simp add: valid_payment_def enum_def)

lemma updateRefundStatus_missing:
  assumes "findIndex (\<lambda>p. paymentId p = pid) (payments d) = None"
  shows "updateRefundStatus e rid pid st d = (Some (Error ''Payment not found''), d)"
  using assms by (simp add: updateRefundStatus_def)

lemma updateRefundStatus_fetch_fails:
  assumes "findIndex (\<lambda>p. paymentId p = pid) (payments d) = Some k"
      and "findIndex (\<lambda>r. Some (rf_id r) = rid) (refunds (payments d ! k)) = None"
      and "refunds_fetch e rid = Inl err"
  shows "updateRefundStatus e rid pid st d = (Some err, d)"
  using assms by (simp add: updateRefundStatus_def)

lemma updateRefundStatus_pushed:
  assumes "findIndex (\<lambda>p. paymentId p = pid) (payments d) = Some k"
      and "findIndex (\<lambda>r. Some (rf_id r) = rid) (refunds (payments d ! k)) = None"
      and "refunds_fetch e rid = Inr x"
  shows "updateRefundStatus e rid pid st d =
           (Some ValidationError,
            if st = ''processed''
            then d\<lparr>orders :=
                    fst (Order_findOneAndUpdate None
                          (if total_ge (totalRefunded (refunds (payments d ! k) @ [pushed e x]))
                                (amount (payments d ! k))
                           then ''refunded'' else ''partially_refunded'')
                          (orders d))\<rparr>
            else d)"
  using assms by (simp add: updateRefundStatus_def save_def pushed_invalid Let_def)

lemma updateRefundStatus_located:
  assumes "findIndex (\<lambda>p. paymentId p = pid) (payments d) = Some k"
      and "findIndex (\<lambda>r. Some (rf_id r) = rid) (refunds (payments d ! k)) = Some i"
  shows "updateRefundStatus e rid pid st d =
     (let p1 = (payments d ! k)\<lparr>refunds :=
                  (refunds (payments d ! k))
                    [i := (refunds (payments d ! k) ! i)\<lparr>rf_status := Some st\<rparr>]\<rparr>;
          p2 = p1\<lparr>status :=
                  (if total_ge (totalRefunded (refunds (payments d ! k))) (amount (payments d ! k))
                   then ''refunded'' else ''partially_refunded'')\<rparr>;
          os = fst (Order_findOneAndUpdate None (status p2) (orders d))
      in if st = ''processed''
         then (if valid_payment p2 then (None, \<lparr>payments = (payments d)[k := p2], orders = os\<rparr>)
               else (Some ValidationError, d\<lparr>orders := os\<rparr>))
         else (if valid_payment p1 then (None, d\<lparr>payments := (payments d)[k := p1]\<rparr>)
               else (Some ValidationError, d)))"
  using assms
  by (simp add: updateRefundStatus_def save_def Let_def totalRefunded_update)



lemma handleWebhook_alt:
  "(\<forall>d. handleWebhook e req d = (respond 400 False, d))
   \<or> (\<forall>d. handleWebhook e req d = (respond 500 False, d))
   \<or> (\<forall>d. handleWebhook e req d =
         (case handleEvent e (body req) d of
            (Some err, d') \<Rightarrow> (respond 500 False, d') | (None, d') \<Rightarrow> (respond 200 True, d')))"
proof (cases "truthy (x_razorpay_signature req)")
  case False
  then show ?thesis by (simp add: handleWebhook_def)
next
  case True
  show ?thesis
  proof (cases "createHmac e (RAZORPAY_WEBHOOK_SECRET e) (JSON_stringify e (body req))")
    case (Inl err)
    with True show ?thesis by (simp add: handleWebhook_def)
  next
    case (Inr s)
    with True show ?thesis
      by (cases "Some s = x_razorpay_signature req") (simp_all add: handleWebhook_def)
  qed
qed

lemma handleWebhook_accepted:
  assumes "x_razorpay_signature req = Some s" "s \<noteq> []"
      and "RAZORPAY_WEBHOOK_SECRET e = Some k"
      and "s = hmac_sha256_hex e k (JSON_stringify e (body req))"
  shows "handleWebhook e req d =
           (case handleEvent e (body req) d of
              (Some err, d') \<Rightarrow> (respond 500 False, d') | (None, d') \<Rightarrow> (respond 200 True, d'))"
  using assms by (simp add: handleWebhook_def createHmac_def truthy_def)


subsection \<open>Evaluation of the arithmetic on numerals\<close>

lemma floor_rat_numeral [simp]:
  "\<lfloor>numeral a / numeral b :: rat\<rfloor> = numeral a div numeral b"
  using floor_divide_of_int_eq [where ?'a = rat, of "numeral a" "numeral b"] by simp

lemma ceiling_rat_numeral [simp]:
  "\<lceil>numeral a / numeral b :: rat\<rceil> = - (- numeral a div numeral b)"
  using ceiling_divide_eq_div [where ?'a = rat, of "numeral a" "numeral b"] by simp

lemmas js_eval = js_round_def ilog2_def pow2_def round_half_even_def bitlength.simps Let_def

lemmas sample_defs = sample_env_def sample_payment_def sample_order_def sample_refund_def
  sample_db_def fresh_db_def pending_refund_db_def two_refunds_db_def overdrawn_db_def
  failed_db_def refunded_db_def payment_event_def refund_event_def sample_verify_req_def
  sample_payment_details_def

lemmas model_defs = handleWebhook_def handleEvent_def updateRefundStatus_def save_def
  valid_payment_def valid_refund_def required_string_def enum_def totalRefunded_def
  total_ge_def or_zero_def pushed_def Order_findOneAndUpdate_def createHmac_def truthy_def

text \<open>The division by 100 and the sum are rounded: 10, 82 and 8 paise add up to the double
  next below 1, and one tenth is not the rational \<open>1 / 10\<close>.\<close>

lemma js_div100_10: "js_div100 (Finite 10) = Finite (3602879701896397 / 2 ^ 55)"
  by (simp add: js_eval)

lemma totalRefunded_rounds:
  "totalRefunded [sample_refund a ''r1'' 10 s, sample_refund b ''r2'' 82 s,
                  sample_refund c ''r3'' 8 s] = Finite (1 - 1 / 2 ^ 53)"
  by (simp add: totalRefunded_def or_zero_def sample_refund_def js_eval)

subsection \<open>What a delivery and a verify call write\<close>

lemma invalid_refund_at:
  assumes "i < length rs" "\<not> valid_refund r"
  shows "\<not> valid_payment (p\<lparr>refunds := rs[i := r]\<rparr>)"
proof -
  have "r \<in> set (rs[i := r])" using assms(1) by (rule set_update_memI)
  then have "\<not> list_all valid_refund (rs[i := r])"
    using assms(2) by (auto simp: list_all_iff)
  then show ?thesis by (simp add: valid_payment_def)
qed

lemma updateRefundStatus_created:
  "payments (snd (updateRefundStatus e rid pid ''created'' d)) = payments d"
proof (cases "findIndex (\<lambda>p. paymentId p = pid) (payments d)")
  case None
  then show ?thesis by (simp add: updateRefundStatus_missing)
next
  case (Some k)
  note pay = Some
  show ?thesis
  proof (cases "findIndex (\<lambda>r. Some (rf_id r) = rid) (refunds (payments d ! k))")
    case None
    then show ?thesis
      by (cases "refunds_fetch e rid")
         (simp_all add: updateRefundStatus_fetch_fails [OF pay] updateRefundStatus_pushed [OF pay])
  next
    case (Some i)
    have "i < length (refunds (payments d ! k))"
      using findIndex_Some [OF Some] by simp
    moreover have "\<not> valid_refund (r\<lparr>rf_status := Some ''created''\<rparr>)" for r
      by (simp add: valid_refund_def enum_def)
    ultimately have "\<not> valid_payment ((payments d ! k)\<lparr>refunds :=
        (refunds (payments d ! k))
          [i := (refunds (payments d ! k) ! i)\<lparr>rf_status := Some ''created''\<rparr>]\<rparr>)"
      by (rule invalid_refund_at)
    then show ?thesis
      by (simp add: updateRefundStatus_located [OF pay Some] Let_def)
  qed
qed

lemma updateRefundStatus_processed:
  "payments (snd (updateRefundStatus e rid pid ''processed'' d)) = payments d
   \<or> (\<exists>k i. findIndex (\<lambda>p. paymentId p = pid) (payments d) = Some k
          \<and> findIndex (\<lambda>r. Some (rf_id r) = rid) (refunds (payments d ! k)) = Some i
          \<and> total_ge (totalRefunded (refunds (payments d ! k))) (amount (payments d ! k))
          \<and> updateRefundStatus e rid pid ''processed'' d =
              (None,
               \<lparr>payments = (payments d)
                  [k := (payments d ! k)
                     \<lparr>refunds := (refunds (payments d ! k))
                        [i := (refunds (payments d ! k) ! i)\<lparr>rf_status := Some ''processed''\<rparr>],
                      status := ''refunded''\<rparr>],
                orders = fst (Order_findOneAndUpdate None ''refunded'' (orders d))\<rparr>))"
proof (cases "findIndex (\<lambda>p. paymentId p = pid) (payments d)")
  case None
  then show ?thesis by (simp add: updateRefundStatus_missing)
next
  case (Some k)
  note pay = Some
  show ?thesis
  proof (cases "findIndex (\<lambda>r. Some (rf_id r) = rid) (refunds (payments d ! k))")
    case None
    then show ?thesis
      by (cases "refunds_fetch e rid")
         (simp_all add: updateRefundStatus_fetch_fails [OF pay] updateRefundStatus_pushed [OF pay])
  next
    case (Some i)
    define P where "P = payments d ! k"
    define rs' where "rs' = (refunds P)[i := (refunds P ! i)\<lparr>rf_status := Some ''processed''\<rparr>]"
    show ?thesis
    proof (cases "total_ge (totalRefunded (refunds P)) (amount P)")
      case True
      show ?thesis
      proof (cases "valid_payment (P\<lparr>refunds := rs', status := ''refunded''\<rparr>)")
        case valid: True
        have "updateRefundStatus e rid pid ''processed'' d =
            (None, \<lparr>payments = (payments d)[k := P\<lparr>refunds := rs', status := ''refunded''\<rparr>],
                    orders = fst (Order_findOneAndUpdate None ''refunded'' (orders d))\<rparr>)"
          using True valid
          by (simp add: updateRefundStatus_located [OF pay Some] Let_def P_def rs'_def)
        with pay Some True show ?thesis
          unfolding P_def rs'_def by blast
      next
        case False
        with True show ?thesis
          by (simp add: updateRefundStatus_located [OF pay Some] Let_def P_def rs'_def)
      qed
    next
      case False
      have "\<not> valid_payment (p\<lparr>status := ''partially_refunded''\<rparr>)" for p
        by (simp add: valid_payment_def enum_def)
      with False show ?thesis
        by (simp add: updateRefundStatus_located [OF pay Some] Let_def P_def)
    qed
  qed
qed

lemma handleEvent_payments:
  "payments (snd (handleEvent e ev d)) = payments d
   \<or> (\<exists>ent k i. event ev = Some ''refund.processed''
          \<and> payload_refund_entity ev = Some ent
          \<and> findIndex (\<lambda>p. paymentId p = re_payment_id ent) (payments d) = Some k
          \<and> findIndex (\<lambda>r. Some (rf_id r) = re_id ent) (refunds (payments d ! k)) = Some i
          \<and> total_ge (totalRefunded (refunds (payments d ! k))) (amount (payments d ! k))
          \<and> handleEvent e ev d =
              (None,
               \<lparr>payments = (payments d)
                  [k := (payments d ! k)
                     \<lparr>refunds := (refunds (payments d ! k))
                        [i := (refunds (payments d ! k) ! i)\<lparr>rf_status := Some ''processed''\<rparr>],
                      status := ''refunded''\<rparr>],
                orders = fst (Order_findOneAndUpdate None ''refunded'' (orders d))\<rparr>))"
proof -
  consider (rc) "event ev = Some ''refund.created''"
    | (rp) "event ev = Some ''refund.processed''"
    | (other) "event ev \<noteq> Some ''refund.created''" "event ev \<noteq> Some ''refund.processed''"
    by blast
  then show ?thesis
  proof cases
    case rc
    then show ?thesis
      by (cases "payload_refund_entity ev")
         (simp_all add: handleEvent_def updateRefundStatus_created)
  next
    case rp
    show ?thesis
    proof (cases "payload_refund_entity ev")
      case None
      with rp show ?thesis by (simp add: handleEvent_def)
    next
      case (Some ent)
      with rp have "handleEvent e ev d
          = updateRefundStatus e (re_id ent) (re_payment_id ent) ''processed'' d"
        by (simp add: handleEvent_def)
      with rp Some updateRefundStatus_processed [of e "re_id ent" "re_payment_id ent" d]
      show ?thesis by auto
    qed
  next
    case other
    then show ?thesis
      by (cases "payload_payment_entity ev")
         (simp_all add: handleEvent_def updatePaymentStatus_throws)
  qed
qed

lemma handleWebhook_payments:
  "payments (snd (handleWebhook e req d)) = payments d
   \<or> (\<exists>ent k i. event (body req) = Some ''refund.processed''
          \<and> payload_refund_entity (body req) = Some ent
          \<and> findIndex (\<lambda>p. paymentId p = re_payment_id ent) (payments d) = Some k
          \<and> findIndex (\<lambda>r. Some (rf_id r) = re_id ent) (refunds (payments d ! k)) = Some i
          \<and> total_ge (totalRefunded (refunds (payments d ! k))) (amount (payments d ! k))
          \<and> handleWebhook e req d =
              (respond 200 True,
               \<lparr>payments = (payments d)
                  [k := (payments d ! k)
                     \<lparr>refunds := (refunds (payments d ! k))
                        [i := (refunds (payments d ! k) ! i)\<lparr>rf_status := Some ''processed''\<rparr>],
                      status := ''refunded''\<rparr>],
                orders = fst (Order_findOneAndUpdate None ''refunded'' (orders d))\<rparr>))"
  using handleWebhook_alt [of e req]
proof (elim disjE)
  assume "\<forall>d. handleWebhook e req d = (respond 400 False, d)"
  then show ?thesis by simp
next
  assume "\<forall>d. handleWebhook e req d = (respond 500 False, d)"
  then show ?thesis by simp
next
  assume a: "\<forall>d. handleWebhook e req d =
         (case handleEvent e (body req) d of
            (Some err, d') \<Rightarrow> (respond 500 False, d') | (None, d') \<Rightarrow> (respond 200 True, d'))"
  from handleEvent_payments [of e "body req" d] show ?thesis
  proof
    assume same: "payments (snd (handleEvent e (body req) d)) = payments d"
    obtain r d1 where r: "handleEvent e (body req) d = (r, d1)"
      by (cases "handleEvent e (body req) d")
    with same a have "payments (snd (handleWebhook e req d)) = payments d"
      by (cases r) simp_all
    then show ?thesis by (rule disjI1)
  next
    assume "\<exists>ent k i. event (body req) = Some ''refund.processed''
          \<and> payload_refund_entity (body req) = Some ent
          \<and> findIndex (\<lambda>p. paymentId p = re_payment_id ent) (payments d) = Some k
          \<and> findIndex (\<lambda>r. Some (rf_id r) = re_id ent) (refunds (payments d ! k)) = Some i
          \<and> total_ge (totalRefunded (refunds (payments d ! k))) (amount (payments d ! k))
          \<and> handleEvent e (body req) d =
              (None,
               \<lparr>payments = (payments d)
                  [k := (payments d ! k)
                     \<lparr>refunds := (refunds (payments d ! k))
                        [i := (refunds (payments d ! k) ! i)\<lparr>rf_status := Some ''processed''\<rparr>],
                      status := ''refunded''\<rparr>],
                orders = fst (Order_findOneAndUpdate None ''refunded'' (orders d))\<rparr>)"
    then obtain ent k i where f: "event (body req) = Some ''refund.processed''"
      "payload_refund_entity (body req) = Some ent"
      "findIndex (\<lambda>p. paymentId p = re_payment_id ent) (payments d) = Some k"
      "findIndex (\<lambda>r. Some (rf_id r) = re_id ent) (refunds (payments d ! k)) = Some i"
      "total_ge (totalRefunded (refunds (payments d ! k))) (amount (payments d ! k))"
      and h: "handleEvent e (body req) d =
              (None,
               \<lparr>payments = (payments d)
                  [k := (payments d ! k)
                     \<lparr>refunds := (refunds (payments d ! k))
                        [i := (refunds (payments d ! k) ! i)\<lparr>rf_status := Some ''processed''\<rparr>],
                      status := ''refunded''\<rparr>],
                orders = fst (Order_findOneAndUpdate None ''refunded'' (orders d))\<rparr>)"
      by blast
    from a h have "handleWebhook e req d =
              (respond 200 True,
               \<lparr>payments = (payments d)
                  [k := (payments d ! k)
                     \<lparr>refunds := (refunds (payments d ! k))
                        [i := (refunds (payments d ! k) ! i)\<lparr>rf_status := Some ''processed''\<rparr>],
                      status := ''refunded''\<rparr>],
                orders = fst (Order_findOneAndUpdate None ''refunded'' (orders d))\<rparr>)"
      by simp
    with f show ?thesis by blast
  qed
qed

text \<open>The document that \<^verbatim>\<open>verifyPayment\<close> hands to \<^verbatim>\<open>Payment.create\<close> has no \<^verbatim>\<open>order\<close>.\<close>

lemma Payment_create_no_order:
  "order doc = None \<Longrightarrow> Payment_create doc ps = (Some ValidationError, ps)"
  by (simp add: Payment_create_def valid_payment_def)

lemma verifyPayment_store:
  "(\<forall>d. snd (verifyPayment e v d) = d)
   \<or> (\<exists>oid. razorpay_order_id v = Some oid
         \<and> (\<forall>d. snd (verifyPayment e v d)
                = d\<lparr>orders := fst (Order_findOneAndUpdate (Some oid) ''paid'' (orders d))\<rparr>))"
proof (cases "razorpay_order_id v")
  case None
  then show ?thesis by (simp add: verifyPayment_def)
next
  case (Some oid)
  note oid = Some
  show ?thesis
  proof (cases "razorpay_payment_id v")
    case None
    with oid show ?thesis by (simp add: verifyPayment_def)
  next
    case (Some pid)
    note pid = Some
    show ?thesis
    proof (cases "razorpay_signature v")
      case None
      with oid pid show ?thesis by (simp add: verifyPayment_def)
    next
      case (Some sig)
      show ?thesis
      proof (cases "oid = [] \<or> pid = [] \<or> sig = []")
        case True
        with oid pid Some show ?thesis by (simp add: verifyPayment_def)
      next
        case nonempty: False
        show ?thesis
        proof (cases "validatePaymentVerification e oid pid sig")
          case (Inl err)
          with oid pid Some nonempty show ?thesis by (simp add: verifyPayment_def)
        next
          case (Inr isValid)
          note checked = Inr
          show ?thesis
          proof (cases isValid)
            case False
            with oid pid Some nonempty checked show ?thesis by (simp add: verifyPayment_def)
          next
            case True
            show ?thesis
            proof (cases "payments_fetch e pid")
              case (Inl err)
              with oid pid Some nonempty checked True show ?thesis
                by (simp add: verifyPayment_def)
            next
              case (Inr pdetails)
              have "snd (verifyPayment e v d)
                  = d\<lparr>orders := fst (Order_findOneAndUpdate (Some oid) ''paid'' (orders d))\<rparr>" for d
                using oid pid Some nonempty checked True Inr
                by (cases "findIndex (\<lambda>ord. o_orderId ord = Some oid) (orders d)";
                    cases "user_id v")
                   (simp_all add: verifyPayment_def Order_findOneAndUpdate_def
                      Payment_create_no_order)
              with oid show ?thesis by blast
            qed
          qed
        qed
      qed
    qed
  qed
qed

lemma handleWebhook_length:
  "length (payments (snd (handleWebhook e req d))) = length (payments d)"
  using handleWebhook_payments [of e req d] by auto

lemma handleWebhook_status:
  "status (payments (snd (handleWebhook e req d)) ! k) = status (payments d ! k)
   \<or> status (payments (snd (handleWebhook e req d)) ! k) = ''refunded''"
  using handleWebhook_payments [of e req d]
proof
  assume "payments (snd (handleWebhook e req d)) = payments d"
  then show ?thesis by simp
next
  assume "\<exists>ent k i. event (body req) = Some ''refund.processed''
          \<and> payload_refund_entity (body req) = Some ent
          \<and> findIndex (\<lambda>p. paymentId p = re_payment_id ent) (payments d) = Some k
          \<and> findIndex (\<lambda>r. Some (rf_id r) = re_id ent) (refunds (payments d ! k)) = Some i
          \<and> total_ge (totalRefunded (refunds (payments d ! k))) (amount (payments d ! k))
          \<and> handleWebhook e req d =
              (respond 200 True,
               \<lparr>payments = (payments d)
                  [k := (payments d ! k)
                     \<lparr>refunds := (refunds (payments d ! k))
                        [i := (refunds (payments d ! k) ! i)\<lparr>rf_status := Some ''processed''\<rparr>],
                      status := ''refunded''\<rparr>],
                orders = fst (Order_findOneAndUpdate None ''refunded'' (orders d))\<rparr>)"
  then obtain ent :: ref_entity and k' i where
      found: "findIndex (\<lambda>p. paymentId p = re_payment_id ent) (payments d) = Some k'"
      and h: "handleWebhook e req d =
              (respond 200 True,
               \<lparr>payments = (payments d)
                  [k' := (payments d ! k')
                     \<lparr>refunds := (refunds (payments d ! k'))
                        [i := (refunds (payments d ! k') ! i)\<lparr>rf_status := Some ''processed''\<rparr>],
                      status := ''refunded''\<rparr>],
                orders = fst (Order_findOneAndUpdate None ''refunded'' (orders d))\<rparr>)"
    by (elim exE conjE) (rule that)
  have "k' < length (payments d)"
    using findIndex_Some [OF found] by simp
  then show ?thesis
    unfolding h by (cases "k = k'") simp_all
qed

lemma verifyPayment_payments:
  "payments (snd (verifyPayment e v d)) = payments d"
  using verifyPayment_store [of e v] by auto

lemma apply_input_length:
  "length (payments (apply_input e i d)) = length (payments d)"
  by (cases i) (simp_all add: verifyPayment_payments handleWebhook_length)

lemma apply_input_status:
  "status (payments (apply_input e i d) ! k) = status (payments d ! k)
   \<or> status (payments (apply_input e i d) ! k) = ''refunded''"
  by (cases i) (simp_all add: verifyPayment_payments handleWebhook_status)

lemma apply_inputs_refunded:
  "status (payments d ! k) = ''refunded''
     \<Longrightarrow> status (payments (apply_inputs e inputs d) ! k) = ''refunded''"
proof (induction inputs arbitrary: d)
  case Nil
  then show ?case by simp
next
  case (Cons i inputs)
  from apply_input_status [of e i d k] Cons.prems
  have "status (payments (apply_input e i d) ! k) = ''refunded''" by auto
  then show ?case by (simp add: Cons.IH)
qed

lemma apply_inputs_failed:
  "status (payments d ! k) = ''failed''
     \<Longrightarrow> status (payments (apply_inputs e inputs d) ! k) \<in> {''failed'', ''refunded''}"
proof (induction inputs arbitrary: d)
  case Nil
  then show ?case by simp
next
  case (Cons i inputs)
  from apply_input_status [of e i d k] Cons.prems
  consider "status (payments (apply_input e i d) ! k) = ''failed''"
    | "status (payments (apply_input e i d) ! k) = ''refunded''" by auto
  then show ?case
  proof cases
    case 1
    then show ?thesis by (simp add: Cons.IH del: insert_iff)
  next
    case 2
    then show ?thesis by (simp add: apply_inputs_refunded)
  qed
qed

subsection \<open>The signature verifier\<close>

text \<open>
  C6. With a configured key secret, \<^verbatim>\<open>validatePaymentVerification\<close> and
  \<^verbatim>\<open>verifyPaymentSignature\<close> answer true exactly when the claimed signature is the hex HMAC
  of \<^verbatim>\<open>orderId + "|" + paymentId\<close> under that secret: the signature computed with the secret
  is accepted and every other signature is rejected.
\<close>

theorem verify_iff_hmac:
  assumes "RAZORPAY_KEY_SECRET e = Some secret"
  shows "validatePaymentVerification e oid pid sig
           = Inr (sig = hmac_sha256_hex e secret (oid @ ''|'' @ pid))
       \<and> verifyPaymentSignature e oid pid sig
           = (sig = hmac_sha256_hex e secret (oid @ ''|'' @ pid))
       \<and> verifyPaymentSignature e oid pid (hmac_sha256_hex e secret (oid @ ''|'' @ pid))
       \<and> (\<forall>sig'. sig' \<noteq> hmac_sha256_hex e secret (oid @ ''|'' @ pid)
             \<longrightarrow> \<not> verifyPaymentSignature e oid pid sig'
               \<and> validatePaymentVerification e oid pid sig' = Inr False)"
  using assms
  by (auto simp: validatePaymentVerification_def verifyPaymentSignature_def createHmac_def)

theorem verify_iff_hmac_witness:
  "RAZORPAY_KEY_SECRET sample_env = Some ''ks''
   \<and> validatePaymentVerification sample_env ''order_ABC'' ''pay_XYZ'' ''ks#order_ABC|pay_XYZ''
       = Inr True
   \<and> verifyPaymentSignature sample_env ''order_ABC'' ''pay_XYZ'' ''ks#order_ABC|pay_XYZ''
   \<and> \<not> verifyPaymentSignature sample_env ''order_ABC'' ''pay_XYZ'' ''ks#order_ABC|pay_XYy''
   \<and> validatePaymentVerification sample_env ''order_ABC'' ''pay_XYZ'' ''ks#order_ABC|pay_XYy''
       = Inr False"
proof -
  have k: "RAZORPAY_KEY_SECRET sample_env = Some ''ks''"
    by (simp add: sample_env_def)
  have h: "hmac_sha256_hex sample_env ''ks'' (''order_ABC'' @ ''|'' @ ''pay_XYZ'')
             = ''ks#order_ABC|pay_XYZ''"
    by (simp add: sample_env_def)
  from verify_iff_hmac [OF k, of "''order_ABC''" "''pay_XYZ''" "''ks#order_ABC|pay_XYZ''"]
  show ?thesis unfolding h using k by simp
qed

subsection \<open>Duplicate deliveries\<close>



subsection \<open>Terminal states\<close>

text \<open>
  C2 as stated fails for the status \<^verbatim>\<open>failed\<close>: a correctly signed \<^verbatim>\<open>refund.processed\<close>
  delivery that names a refund recorded on a failed Payment, by the id of the sub-record,
  is acknowledged and moves the Payment to \<^verbatim>\<open>refunded\<close>.
\<close>

theorem failed_refund_processed_counterexample:
  "map status (payments failed_db) = [''failed'']
   \<and> fst (handleWebhook sample_env
        (refund_event ''refund.processed'' ''65f0c0ffee0000000000000a'' ''pay_XYZ'') failed_db)
       = respond 200 True
   \<and> payments (snd (handleWebhook sample_env
        (refund_event ''refund.processed'' ''65f0c0ffee0000000000000a'' ''pay_XYZ'') failed_db))
       = [sample_payment\<lparr>status := ''refunded'',
            refunds := [sample_refund ''65f0c0ffee0000000000000a'' ''rfnd_A'' 10000 ''processed'']\<rparr>]"
  by (simp add: model_defs sample_defs js_eval)

text \<open>
  C2, amended. A Payment whose status is \<^verbatim>\<open>refunded\<close> keeps it under every sequence of
  verify calls and webhook deliveries. A Payment whose status is \<^verbatim>\<open>failed\<close> is never given
  a status other than \<^verbatim>\<open>failed\<close> and \<^verbatim>\<open>refunded\<close>; a verify call leaves it \<^verbatim>\<open>failed\<close>, and a
  webhook delivery changes it only to \<^verbatim>\<open>refunded\<close> and only when the delivery is a
  \<^verbatim>\<open>refund.processed\<close> that is answered with 200 and whose refund id is the id of a
  sub-record in the refunds of that Payment.
\<close>

theorem terminal_status:
  assumes "k < length (payments d)"
  shows "(status (payments d ! k) = ''refunded''
            \<longrightarrow> status (payments (apply_inputs e inputs d) ! k) = ''refunded'')
       \<and> (status (payments d ! k) = ''failed''
            \<longrightarrow> status (payments (apply_inputs e inputs d) ! k) \<in> {''failed'', ''refunded''})
       \<and> (status (payments d ! k) = ''failed''
            \<longrightarrow> status (payments (snd (verifyPayment e v d)) ! k) = ''failed'')
       \<and> (status (payments d ! k) = ''failed''
            \<and> status (payments (snd (handleWebhook e req d)) ! k) \<noteq> ''failed''
            \<longrightarrow> status (payments (snd (handleWebhook e req d)) ! k) = ''refunded''
              \<and> event (body req) = Some ''refund.processed''
              \<and> fst (handleWebhook e req d) = respond 200 True
              \<and> (\<exists>ent i. payload_refund_entity (body req) = Some ent
                    \<and> findIndex (\<lambda>p. paymentId p = re_payment_id ent) (payments d) = Some k
                    \<and> findIndex (\<lambda>r. Some (rf_id r) = re_id ent) (refunds (payments d ! k))
                        = Some i))"
proof (intro conjI impI)
  assume "status (payments d ! k) = ''refunded''"
  then show "status (payments (apply_inputs e inputs d) ! k) = ''refunded''"
    by (rule apply_inputs_refunded)
next
  assume "status (payments d ! k) = ''failed''"
  then show "status (payments (apply_inputs e inputs d) ! k) \<in> {''failed'', ''refunded''}"
    by (rule apply_inputs_failed)
next
  assume "status (payments d ! k) = ''failed''"
  then show "status (payments (snd (verifyPayment e v d)) ! k) = ''failed''"
    by (simp add: verifyPayment_payments)
next
  assume a: "status (payments d ! k) = ''failed''
            \<and> status (payments (snd (handleWebhook e req d)) ! k) \<noteq> ''failed''"
  then have changed: "payments (snd (handleWebhook e req d)) \<noteq> payments d" by auto
  with handleWebhook_payments [of e req d]
  obtain ent :: ref_entity and k' i where f: "event (body req) = Some ''refund.processed''"
      "payload_refund_entity (body req) = Some ent"
      "findIndex (\<lambda>p. paymentId p = re_payment_id ent) (payments d) = Some k'"
      "findIndex (\<lambda>r. Some (rf_id r) = re_id ent) (refunds (payments d ! k')) = Some i"
    and h: "handleWebhook e req d =
              (respond 200 True,
               \<lparr>payments = (payments d)
                  [k' := (payments d ! k')
                     \<lparr>refunds := (refunds (payments d ! k'))
                        [i := (refunds (payments d ! k') ! i)\<lparr>rf_status := Some ''processed''\<rparr>],
                      status := ''refunded''\<rparr>],
                orders = fst (Order_findOneAndUpdate None ''refunded'' (orders d))\<rparr>)"
    by blast
  have "k' = k"
  proof (rule ccontr)
    assume "k' \<noteq> k"
    then have "status (payments (snd (handleWebhook e req d)) ! k) = status (payments d ! k)"
      by (simp add: h)
    with a show False by simp
  qed
  with f h assms
  show "status (payments (snd (handleWebhook e req d)) ! k) = ''refunded''"
    "event (body req) = Some ''refund.processed''"
    "fst (handleWebhook e req d) = respond 200 True"
    "\<exists>ent i. payload_refund_entity (body req) = Some ent
        \<and> findIndex (\<lambda>p. paymentId p = re_payment_id ent) (payments d) = Some k
        \<and> findIndex (\<lambda>r. Some (rf_id r) = re_id ent) (refunds (payments d ! k)) = Some i"
    by auto
qed

theorem terminal_status_witness:
  "status (payments (apply_inputs sample_env
      [WebhookDelivery (payment_event ''payment.captured'' ''pay_XYZ'' ''order_ABC''),
       VerifyCall sample_verify_req,
       WebhookDelivery (refund_event ''refund.processed'' ''65f0c0ffee0000000000000a'' ''pay_XYZ'')]
      refunded_db) ! 0) = ''refunded''
   \<and> status (payments (snd (verifyPayment sample_env sample_verify_req failed_db)) ! 0)
      = ''failed''"
proof -
  have r: "0 < length (payments refunded_db)" "status (payments refunded_db ! 0) = ''refunded''"
    by (simp_all add: refunded_db_def sample_payment_def)
  have f: "0 < length (payments failed_db)" "status (payments failed_db ! 0) = ''failed''"
    by (simp_all add: failed_db_def sample_payment_def)
  from terminal_status [OF r(1)] terminal_status [OF f(1)] r(2) f(2)
  show ?thesis by blast
qed

subsection \<open>Arrival order\<close>

lemma apply_inputs_fold: "apply_inputs e inputs d = fold (apply_input e) inputs d"
  by (induction inputs arbitrary: d) simp_all

lemma map_orderId_update:
  "map o_orderId (os[j := (os ! j)\<lparr>o_status := s\<rparr>]) = map o_orderId os"
  by (induction os arbitrary: j) (auto simp: nth_Cons split: nat.splits)

lemma findIndex_order_update:
  "findIndex (\<lambda>ord. o_orderId ord = a) (fst (Order_findOneAndUpdate b s os))
     = findIndex (\<lambda>ord. o_orderId ord = a) os"
  by (cases "findIndex (\<lambda>ord. o_orderId ord = b) os")
     (simp_all add: Order_findOneAndUpdate_def findIndex_map [of o_orderId] map_orderId_update)

lemma Order_findOneAndUpdate_commute:
  "fst (Order_findOneAndUpdate a s (fst (Order_findOneAndUpdate b s os)))
     = fst (Order_findOneAndUpdate b s (fst (Order_findOneAndUpdate a s os)))"
proof (cases "findIndex (\<lambda>ord. o_orderId ord = a) os")
  case None
  then show ?thesis
    using findIndex_order_update [of a b s os]
    by (simp add: Order_findOneAndUpdate_def [of a])
next
  case (Some i)
  note ia = Some
  show ?thesis
  proof (cases "findIndex (\<lambda>ord. o_orderId ord = b) os")
    case None
    then show ?thesis
      using findIndex_order_update [of b a s os]
      by (simp add: Order_findOneAndUpdate_def [of b])
  next
    case (Some j)
    have i: "i < length os" and j: "j < length os"
      using findIndex_Some [OF ia] findIndex_Some [OF Some] by simp_all
    have l: "fst (Order_findOneAndUpdate a s (fst (Order_findOneAndUpdate b s os)))
        = (os[j := (os ! j)\<lparr>o_status := s\<rparr>])
            [i := ((os[j := (os ! j)\<lparr>o_status := s\<rparr>]) ! i)\<lparr>o_status := s\<rparr>]"
      using findIndex_order_update [of a b s os] ia Some
      by (simp add: Order_findOneAndUpdate_def)
    have r: "fst (Order_findOneAndUpdate b s (fst (Order_findOneAndUpdate a s os)))
        = (os[i := (os ! i)\<lparr>o_status := s\<rparr>])
            [j := ((os[i := (os ! i)\<lparr>o_status := s\<rparr>]) ! j)\<lparr>o_status := s\<rparr>]"
      using findIndex_order_update [of b a s os] ia Some
      by (simp add: Order_findOneAndUpdate_def)
    show ?thesis
      unfolding l r using i j by (cases "i = j") (simp_all add: list_update_swap)
  qed
qed

lemma handleWebhook_payment_event:
  assumes "event (body r) \<in> {Some ''payment.authorized'', Some ''payment.captured'',
                              Some ''payment.failed''}"
  shows "snd (handleWebhook e r d) = d"
proof -
  have "snd (handleEvent e (body r) d) = d"
    using assms
    by (cases "payload_payment_entity (body r)")
       (auto simp: handleEvent_def updatePaymentStatus_throws)
  then obtain x where "handleEvent e (body r) d = (x, d)"
    by (cases "handleEvent e (body r) d") simp
  then show ?thesis
    using handleWebhook_alt [of e r] by (cases x) auto
qed

lemma apply_input_paid:
  assumes "(\<exists>v. i = VerifyCall v)
         \<or> (\<exists>r. i = WebhookDelivery r
               \<and> event (body r) \<in> {Some ''payment.authorized'', Some ''payment.captured'',
                                     Some ''payment.failed''})"
  shows "apply_input e i = (\<lambda>d. d)
       \<or> (\<exists>oid. apply_input e i
             = (\<lambda>d. d\<lparr>orders := fst (Order_findOneAndUpdate (Some oid) ''paid'' (orders d))\<rparr>))"
proof (cases i)
  case (VerifyCall v)
  with verifyPayment_store [of e v] show ?thesis by (auto simp: fun_eq_iff)
next
  case (WebhookDelivery r)
  with assms have "apply_input e i d = d" for d
    by (simp add: handleWebhook_payment_event del: insert_iff)
  then show ?thesis by (simp add: fun_eq_iff)
qed

lemma apply_input_commute:
  assumes "apply_input e i = (\<lambda>d. d)
       \<or> (\<exists>oid. apply_input e i
             = (\<lambda>d. d\<lparr>orders := fst (Order_findOneAndUpdate (Some oid) ''paid'' (orders d))\<rparr>))"
      and "apply_input e j = (\<lambda>d. d)
       \<or> (\<exists>oid. apply_input e j
             = (\<lambda>d. d\<lparr>orders := fst (Order_findOneAndUpdate (Some oid) ''paid'' (orders d))\<rparr>))"
  shows "apply_input e i \<circ> apply_input e j = apply_input e j \<circ> apply_input e i"
  using assms by (auto simp: fun_eq_iff Order_findOneAndUpdate_commute)

text \<open>
  C3. For a list of reconciliation inputs, each a verify call or a webhook delivery of
  \<^verbatim>\<open>payment.authorized\<close>, \<^verbatim>\<open>payment.captured\<close> or \<^verbatim>\<open>payment.failed\<close>, handled one at a time,
  every arrival order leaves the same store: the same Payment documents and the same
  Orders.
\<close>

theorem arrival_order:
  assumes "\<forall>i \<in> set inputs.
             (\<exists>v. i = VerifyCall v)
             \<or> (\<exists>r. i = WebhookDelivery r
                   \<and> event (body r) \<in> {Some ''payment.authorized'', Some ''payment.captured'',
                                         Some ''payment.failed''})"
      and "mset inputs' = mset inputs"
  shows "apply_inputs e inputs' d = apply_inputs e inputs d"
proof -
  have "fold (apply_input e) inputs = fold (apply_input e) inputs'"
  proof (rule fold_multiset_equiv)
    fix i j
    assume "i \<in> set inputs" "j \<in> set inputs"
    with assms(1) show "apply_input e i \<circ> apply_input e j = apply_input e j \<circ> apply_input e i"
      by (intro apply_input_commute apply_input_paid) blast+
  next
    show "mset inputs = mset inputs'" using assms(2) by simp
  qed
  then show ?thesis by (simp add: apply_inputs_fold)
qed

theorem arrival_order_witness:
  "apply_inputs sample_env
     [VerifyCall sample_verify_req,
      WebhookDelivery (payment_event ''payment.authorized'' ''pay_XYZ'' ''order_ABC''),
      WebhookDelivery (payment_event ''payment.captured'' ''pay_XYZ'' ''order_ABC''),
      WebhookDelivery (payment_event ''payment.failed'' ''pay_XYZ'' ''order_ABC'')] fresh_db
   = \<lparr>payments = [], orders = [sample_order\<lparr>o_status := ''paid''\<rparr>]\<rparr>
   \<and> apply_inputs sample_env
     [WebhookDelivery (payment_event ''payment.failed'' ''pay_XYZ'' ''order_ABC''),
      WebhookDelivery (payment_event ''payment.captured'' ''pay_XYZ'' ''order_ABC''),
      VerifyCall sample_verify_req,
      WebhookDelivery (payment_event ''payment.authorized'' ''pay_XYZ'' ''order_ABC'')] fresh_db
   = \<lparr>payments = [], orders = [sample_order\<lparr>o_status := ''paid''\<rparr>]\<rparr>"
proof -
  let ?v = "VerifyCall sample_verify_req"
  let ?a = "WebhookDelivery (payment_event ''payment.authorized'' ''pay_XYZ'' ''order_ABC'')"
  let ?c = "WebhookDelivery (payment_event ''payment.captured'' ''pay_XYZ'' ''order_ABC'')"
  let ?f = "WebhookDelivery (payment_event ''payment.failed'' ''pay_XYZ'' ''order_ABC'')"
  have kinds: "\<forall>i \<in> set [?v, ?a, ?c, ?f].
             (\<exists>v. i = VerifyCall v)
             \<or> (\<exists>r. i = WebhookDelivery r
                   \<and> event (body r) \<in> {Some ''payment.authorized'', Some ''payment.captured'',
                                         Some ''payment.failed''})"
    by (simp add: payment_event_def)
  have perm: "mset [?f, ?c, ?v, ?a] = mset [?v, ?a, ?c, ?f]"
    by simp
  have one: "apply_inputs sample_env [?v, ?a, ?c, ?f] fresh_db
      = \<lparr>payments = [], orders = [sample_order\<lparr>o_status := ''paid''\<rparr>]\<rparr>"
    by (simp add: verifyPayment_def validatePaymentVerification_def Payment_create_def strict_def
        paymentSchema_paths_def updatePaymentStatus_def Payment_findOneAndUpdate_def
        cast_upsert_filter_def model_defs sample_defs js_eval)
  from arrival_order [OF kinds perm, of sample_env fresh_db] one
  show ?thesis by simp
qed

subsection \<open>Refund aggregation\<close>

text \<open>
  C4. The code departs from the claim. A captured Payment of 100 holds one refund, recorded
  with the gateway id \<^verbatim>\<open>rfnd_A\<close>, 10000 paise, pending. The correctly signed
  \<^verbatim>\<open>refund.processed\<close> delivery for \<^verbatim>\<open>rfnd_A\<close> is answered with 500 and the Payment stays
  \<^verbatim>\<open>captured\<close> with its refund pending, where the claim has it \<^verbatim>\<open>refunded\<close>: the refund is
  looked up by the id of the sub-record, not by the gateway id, and the refund entity
  pushed in its place fails the validators of the schema. A \<^verbatim>\<open>refund.processed\<close> delivery
  that does name a sub-record, the pending refund of 50 paise beside a pending refund of
  9950 paise, is answered with 200 and leaves the Payment \<^verbatim>\<open>refunded\<close>, although its
  processed refunds, which the virtual \<^verbatim>\<open>refundedAmount\<close> adds up, amount to 50 paise: the
  sum of \<^verbatim>\<open>updateRefundStatus\<close> counts the pending refund too.
\<close>

theorem refund_aggregation_divergence:
  "fst (handleWebhook sample_env (refund_event ''refund.processed'' ''rfnd_A'' ''pay_XYZ'')
         pending_refund_db) = respond 500 False
   \<and> payments (snd (handleWebhook sample_env
         (refund_event ''refund.processed'' ''rfnd_A'' ''pay_XYZ'') pending_refund_db))
       = [sample_payment\<lparr>refunds :=
            [sample_refund ''65f0c0ffee0000000000000a'' ''rfnd_A'' 10000 ''pending'']\<rparr>]
   \<and> status sample_payment = ''captured''
   \<and> fst (handleWebhook sample_env
         (refund_event ''refund.processed'' ''65f0c0ffee0000000000000a'' ''pay_XYZ'')
         two_refunds_db) = respond 200 True
   \<and> payments (snd (handleWebhook sample_env
         (refund_event ''refund.processed'' ''65f0c0ffee0000000000000a'' ''pay_XYZ'')
         two_refunds_db))
       = [sample_payment\<lparr>refunds :=
            [sample_refund ''65f0c0ffee0000000000000a'' ''rfnd_A'' 50 ''processed'',
             sample_refund ''65f0c0ffee0000000000000b'' ''rfnd_B'' 9950 ''pending''],
            status := ''refunded''\<rparr>]
   \<and> refundedAmount (sample_payment\<lparr>refunds :=
            [sample_refund ''65f0c0ffee0000000000000a'' ''rfnd_A'' 50 ''processed'',
             sample_refund ''65f0c0ffee0000000000000b'' ''rfnd_B'' 9950 ''pending''],
            status := ''refunded''\<rparr>) = Finite 50
   \<and> amount sample_payment = Some (Finite 100)"
  by (simp add: model_defs sample_defs refundedAmount_def js_eval)


subsection \<open>Refunds beyond the charge\<close>

text \<open>
  C5 as stated fails: nothing caps the sum. A Payment of 100 holds a processed refund of
  6000 paise and a pending one of 6000 paise. The correctly signed \<^verbatim>\<open>refund.processed\<close>
  delivery that names the pending refund is answered with 200 and records it as processed:
  the processed refunds then amount to 12000 paise, 120 after the division by 100, for a
  Payment of 100, whose status is \<^verbatim>\<open>refunded\<close> like that of any fully refunded Payment.
\<close>

theorem refund_beyond_charge_counterexample:
  "amount sample_payment = Some (Finite 100)
   \<and> refundedAmount (payments overdrawn_db ! 0) = Finite 6000
   \<and> fst (handleWebhook sample_env
         (refund_event ''refund.processed'' ''65f0c0ffee0000000000000b'' ''pay_XYZ'')
         overdrawn_db) = respond 200 True
   \<and> payments (snd (handleWebhook sample_env
         (refund_event ''refund.processed'' ''65f0c0ffee0000000000000b'' ''pay_XYZ'')
         overdrawn_db))
       = [sample_payment\<lparr>refunds :=
            [sample_refund ''65f0c0ffee0000000000000a'' ''rfnd_A'' 6000 ''processed'',
             sample_refund ''65f0c0ffee0000000000000b'' ''rfnd_B'' 6000 ''processed''],
            status := ''refunded''\<rparr>]
   \<and> refundedAmount (sample_payment\<lparr>refunds :=
            [sample_refund ''65f0c0ffee0000000000000a'' ''rfnd_A'' 6000 ''processed'',
             sample_refund ''65f0c0ffee0000000000000b'' ''rfnd_B'' 6000 ''processed''],
            status := ''refunded''\<rparr>) = Finite 12000
   \<and> totalRefunded
         [sample_refund ''65f0c0ffee0000000000000a'' ''rfnd_A'' 6000 ''processed'',
          sample_refund ''65f0c0ffee0000000000000b'' ''rfnd_B'' 6000 ''processed'']
       = Finite 120"
  by (simp add: model_defs sample_defs refundedAmount_def js_eval)

text \<open>
  C5, amended. A webhook delivery writes no amount and records no new refund. It either
  leaves every Payment as it is, or it marks one refund that a Payment already holds as
  processed and sets the status of that Payment to \<^verbatim>\<open>refunded\<close>; it does the latter only when
  the amounts of all refunds of the Payment, whatever their status and each divided by
  100, add up to at least the amount of the Payment. The sum of the processed refunds is
  not capped at the amount of the Payment, and no other field marks the record.
\<close>

theorem refund_accounting:
  "payments (snd (handleWebhook e req d)) = payments d
   \<or> (\<exists>k i. k < length (payments d) \<and> i < length (refunds (payments d ! k))
          \<and> total_ge (totalRefunded (refunds (payments d ! k))) (amount (payments d ! k))
          \<and> payments (snd (handleWebhook e req d))
              = (payments d)
                  [k := (payments d ! k)
                     \<lparr>refunds := (refunds (payments d ! k))
                        [i := (refunds (payments d ! k) ! i)\<lparr>rf_status := Some ''processed''\<rparr>],
                      status := ''refunded''\<rparr>])"
  using handleWebhook_payments [of e req d]
proof
  assume "payments (snd (handleWebhook e req d)) = payments d"
  then show ?thesis by (rule disjI1)
next
  assume "\<exists>ent k i. event (body req) = Some ''refund.processed''
          \<and> payload_refund_entity (body req) = Some ent
          \<and> findIndex (\<lambda>p. paymentId p = re_payment_id ent) (payments d) = Some k
          \<and> findIndex (\<lambda>r. Some (rf_id r) = re_id ent) (refunds (payments d ! k)) = Some i
          \<and> total_ge (totalRefunded (refunds (payments d ! k))) (amount (payments d ! k))
          \<and> handleWebhook e req d =
              (respond 200 True,
               \<lparr>payments = (payments d)
                  [k := (payments d ! k)
                     \<lparr>refunds := (refunds (payments d ! k))
                        [i := (refunds (payments d ! k) ! i)\<lparr>rf_status := Some ''processed''\<rparr>],
                      status := ''refunded''\<rparr>],
                orders = fst (Order_findOneAndUpdate None ''refunded'' (orders d))\<rparr>)"
  then obtain ent :: ref_entity and k i where
      k: "findIndex (\<lambda>p. paymentId p = re_payment_id ent) (payments d) = Some k"
      and i: "findIndex (\<lambda>r. Some (rf_id r) = re_id ent) (refunds (payments d ! k)) = Some i"
      and t: "total_ge (totalRefunded (refunds (payments d ! k))) (amount (payments d ! k))"
      and h: "handleWebhook e req d =
              (respond 200 True,
               \<lparr>payments = (payments d)
                  [k := (payments d ! k)
                     \<lparr>refunds := (refunds (payments d ! k))
                        [i := (refunds (payments d ! k) ! i)\<lparr>rf_status := Some ''processed''\<rparr>],
                      status := ''refunded''\<rparr>],
                orders = fst (Order_findOneAndUpdate None ''refunded'' (orders d))\<rparr>)"
    by (elim exE conjE) (rule that)
  have "k < length (payments d)" "i < length (refunds (payments d ! k))"
    using findIndex_Some [OF k] findIndex_Some [OF i] by simp_all
  with t h show ?thesis by auto
qed

subsection \<open>Rejected webhook signatures\<close>

text \<open>
  C8. A webhook request without a signature header, or whose header differs from the HMAC
  that the handler computes over the re-serialised body under the configured webhook
  secret, is answered with 400 and leaves the store as it was.
\<close>

theorem webhook_signature_rejected:
  assumes "x_razorpay_signature req = None
           \<or> (\<exists>k. RAZORPAY_WEBHOOK_SECRET e = Some k
                  \<and> Some (hmac_sha256_hex e k (JSON_stringify e (body req)))
                      \<noteq> x_razorpay_signature req)"
  shows "handleWebhook e req d = (respond 400 False, d)"
  using assms
proof
  assume "x_razorpay_signature req = None"
  then show ?thesis by (simp add: handleWebhook_def truthy_def)
next
  assume "\<exists>k. RAZORPAY_WEBHOOK_SECRET e = Some k
                  \<and> Some (hmac_sha256_hex e k (JSON_stringify e (body req)))
                      \<noteq> x_razorpay_signature req"
  then obtain k where "RAZORPAY_WEBHOOK_SECRET e = Some k"
    "Some (hmac_sha256_hex e k (JSON_stringify e (body req))) \<noteq> x_razorpay_signature req"
    by blast
  then show ?thesis by (simp add: handleWebhook_def createHmac_def)
qed

theorem webhook_signature_rejected_witness:
  "handleWebhook sample_env
      ((payment_event ''payment.captured'' ''pay_XYZ'' ''order_ABC'')
         \<lparr>x_razorpay_signature := None\<rparr>) fresh_db
     = (respond 400 False, fresh_db)
   \<and> handleWebhook sample_env
      ((payment_event ''payment.captured'' ''pay_XYZ'' ''order_ABC'')
         \<lparr>x_razorpay_signature := Some ''ws#payment.capturee''\<rparr>) fresh_db
     = (respond 400 False, fresh_db)"
proof -
  let ?r = "payment_event ''payment.captured'' ''pay_XYZ'' ''order_ABC''"
  have a: "x_razorpay_signature (?r\<lparr>x_razorpay_signature := None\<rparr>) = None
      \<or> (\<exists>k. RAZORPAY_WEBHOOK_SECRET sample_env = Some k
             \<and> Some (hmac_sha256_hex sample_env k
                        (JSON_stringify sample_env (body (?r\<lparr>x_razorpay_signature := None\<rparr>))))
                 \<noteq> x_razorpay_signature (?r\<lparr>x_razorpay_signature := None\<rparr>))"
    by simp
  have "RAZORPAY_WEBHOOK_SECRET sample_env = Some ''ws''
      \<and> Some (hmac_sha256_hex sample_env ''ws''
                 (JSON_stringify sample_env
                    (body (?r\<lparr>x_razorpay_signature := Some ''ws#payment.capturee''\<rparr>))))
          \<noteq> x_razorpay_signature (?r\<lparr>x_razorpay_signature := Some ''ws#payment.capturee''\<rparr>)"
    by (simp add: sample_env_def payment_event_def)
  then have b: "x_razorpay_signature (?r\<lparr>x_razorpay_signature := Some ''ws#payment.capturee''\<rparr>) = None
      \<or> (\<exists>k. RAZORPAY_WEBHOOK_SECRET sample_env = Some k
             \<and> Some (hmac_sha256_hex sample_env k
                        (JSON_stringify sample_env
                           (body (?r\<lparr>x_razorpay_signature := Some ''ws#payment.capturee''\<rparr>))))
                 \<noteq> x_razorpay_signature (?r\<lparr>x_razorpay_signature := Some ''ws#payment.capturee''\<rparr>))"
    by blast
  from webhook_signature_rejected [OF a] webhook_signature_rejected [OF b]
  show ?thesis by simp
qed

end
